theory Spec2Isabelle
  imports Main
begin

section \<open>Python string primitives used by the chess application\<close>

text \<open>
  A Python \<open>str\<close> is modelled as a \<open>string\<close> whose characters are the code points
  0..255.  On this range \<open>str.isspace\<close>, \<open>str.lower\<close>, \<open>str.isdigit\<close> and
  \<open>int\<close> of a one-character string behave as written below.
\<close>

definition py_ord :: "char \<Rightarrow> int" where
  "py_ord c = of_char c"

definition py_chr :: "int \<Rightarrow> char" where
  "py_chr n = char_of n"

definition py_isspace :: "char \<Rightarrow> bool" where
  "py_isspace c = (py_ord c \<in> {9, 10, 11, 12, 13, 28, 29, 30, 31, 32, 133, 160})"

definition py_strip :: "string \<Rightarrow> string" where
  "py_strip s = rev (dropWhile py_isspace (rev (dropWhile py_isspace s)))"

definition py_lower :: "char \<Rightarrow> char" where
  "py_lower c =
     (let n = py_ord c
      in if (65 \<le> n \<and> n \<le> 90) \<or> (192 \<le> n \<and> n \<le> 222 \<and> n \<noteq> 215)
         then py_chr (n + 32) else c)"

definition py_isdigit :: "char \<Rightarrow> bool" where
  "py_isdigit c = (let n = py_ord c in (48 \<le> n \<and> n \<le> 57) \<or> n \<in> {178, 179, 185})"

text \<open>\<open>int(rank)\<close> for a one-character string: \<open>None\<close> stands for \<open>ValueError\<close>.\<close>

definition py_int :: "char \<Rightarrow> int option" where
  "py_int c = (let n = py_ord c in if 48 \<le> n \<and> n \<le> 57 then Some (n - 48) else None)"

fun digits :: "nat \<Rightarrow> string" where
  "digits n = (if n < 10 then [py_chr (48 + int n)]
               else digits (n div 10) @ [py_chr (48 + int (n mod 10))])"

declare digits.simps [simp del]

definition py_str :: "int \<Rightarrow> string" where
  "py_str i = (if i < 0 then CHR ''-'' # digits (nat (- i)) else digits (nat i))"

section \<open>models.py: the Board table\<close>

text \<open>
  The table \<open>Board\<close> has the columns \<open>user\<close>, \<open>location\<close>, \<open>value\<close> and is
  \<open>unique_together\<close> on \<open>(user, location)\<close>: its contents are a partial map from
  \<open>(user, location)\<close> to \<open>value\<close>.  \<open>objects.get\<close> is the lookup (\<open>None\<close> is
  \<open>DoesNotExist\<close>), \<open>filter(...).delete()\<close> removes keys, \<open>create\<close> and \<open>save\<close>
  write a key.  Locations are compared as the exact strings stored.
\<close>

type_synonym 'u objects = "'u \<times> string \<rightharpoonup> string"

definition square_to_indices :: "string \<Rightarrow> string + int \<times> int" where
  "square_to_indices square =
     (case square of
        [f, rank] \<Rightarrow>
          (let file = py_lower f;
               col = py_ord file - py_ord CHR ''a''
           in case py_int rank of
                None \<Rightarrow> Inl ''Rank must be a number between 1 and 8.''
              | Some n \<Rightarrow>
                  (let row = 8 - n
                   in if \<not> (0 \<le> row \<and> row < 8 \<and> 0 \<le> col \<and> col < 8)
                      then Inl ''Square out of bounds.''
                      else Inr (row, col)))
      | _ \<Rightarrow> Inl ''Square must be a 2-character string, e.g. e2.'')"

definition PIECE_MAPPING :: "string \<rightharpoonup> string \<times> string" where
  "PIECE_MAPPING = map_of
     [(''&#9817;'', (''pawn'', ''white'')),
      (''&#9814;'', (''rook'', ''white'')),
      (''&#9816;'', (''knight'', ''white'')),
      (''&#9815;'', (''bishop'', ''white'')),
      (''&#9813;'', (''queen'', ''white'')),
      (''&#9812;'', (''king'', ''white'')),
      (''&#9823;'', (''pawn'', ''black'')),
      (''&#9820;'', (''rook'', ''black'')),
      (''&#9822;'', (''knight'', ''black'')),
      (''&#9821;'', (''bishop'', ''black'')),
      (''&#9819;'', (''queen'', ''black'')),
      (''&#9818;'', (''king'', ''black''))]"

definition get_piece_at :: "'u objects \<Rightarrow> 'u \<Rightarrow> string \<Rightarrow> string" where
  "get_piece_at db user square =
     (case db (user, square) of Some v \<Rightarrow> v | None \<Rightarrow> ''&nbsp;'')"

text \<open>
  The two emptiness tests of the source: \<open>v.strip() == "" or v == "&nbsp;"\<close> for the
  piece that is to move (views.py line 31, models.py line 226), and
  \<open>v.strip() in ("", "&nbsp;")\<close> for every other square that models.py inspects.
\<close>

definition no_piece :: "string \<Rightarrow> bool" where
  "no_piece v = (py_strip v = [] \<or> v = ''&nbsp;'')"

definition blank :: "string \<Rightarrow> bool" where
  "blank v = (py_strip v = [] \<or> py_strip v = ''&nbsp;'')"

text \<open>
  The name that models.py builds for the indices \<open>(r, c)\<close>, in \<open>is_path_clear\<close> as
  \<open>f"{chr(c + ord('a'))}{str(8 - r)}"\<close> and for the pawn's intermediate square as
  \<open>f"{chr(src_col + ord('a'))}{8 - intermediate_row}"\<close>.
\<close>

definition square_name :: "int \<Rightarrow> int \<Rightarrow> string" where
  "square_name r c = py_chr (c + py_ord CHR ''a'') # py_str (8 - r)"

text \<open>The loop \<open>for step in range(1, steps)\<close> of \<open>is_path_clear\<close>, with its early return.\<close>

fun path_loop :: "'u objects \<Rightarrow> 'u \<Rightarrow> int \<Rightarrow> int \<Rightarrow> int \<Rightarrow> int \<Rightarrow> int list \<Rightarrow> bool" where
  "path_loop db user src_row src_col step_row step_col [] = True"
| "path_loop db user src_row src_col step_row step_col (step # rest) =
     (let r = src_row + step * step_row;
          c = src_col + step * step_col;
          square = square_name r c
      in if \<not> blank (get_piece_at db user square) then False
         else path_loop db user src_row src_col step_row step_col rest)"

text \<open>\<open>Inl\<close> is the \<open>ValueError\<close> that \<open>square_to_indices\<close> raises through \<open>is_path_clear\<close>.\<close>

definition is_path_clear :: "'u objects \<Rightarrow> 'u \<Rightarrow> string \<Rightarrow> string \<Rightarrow> string + bool" where
  "is_path_clear db user source destination =
     (case square_to_indices source of
        Inl e \<Rightarrow> Inl e
      | Inr (src_row, src_col) \<Rightarrow>
     (case square_to_indices destination of
        Inl e \<Rightarrow> Inl e
      | Inr (dst_row, dst_col) \<Rightarrow>
          (let delta_row = dst_row - src_row;
               delta_col = dst_col - src_col;
               steps = max \<bar>delta_row\<bar> \<bar>delta_col\<bar>
           in if steps \<le> 1 then Inr True
              else (let step_row = delta_row div steps;
                        step_col = delta_col div steps
                    in Inr (path_loop db user src_row src_col step_row step_col
                              [1 .. steps - 1])))))"

text \<open>The branches of \<open>validate_move\<close> after the own-piece check, one per piece type.\<close>

definition pawn_rules ::
  "'u objects \<Rightarrow> 'u \<Rightarrow> string \<Rightarrow> string \<Rightarrow> int \<Rightarrow> int \<Rightarrow> int \<Rightarrow> int \<Rightarrow> bool \<times> string" where
  "pawn_rules db user piece_color dest_piece src_row src_col d_row d_col =
     (let direction = (if piece_color = ''white'' then - 1 else 1);
          start_row = (if piece_color = ''white'' then 6 else 1)
      in if d_col = 0 \<and> d_row = direction then
           (if blank dest_piece then (True, [])
            else (False, ''Pawn cannot move forward into an occupied square.''))
         else if d_col = 0 \<and> d_row = 2 * direction \<and> src_row = start_row then
           (let intermediate_row = src_row + direction;
                intermediate_square = square_name intermediate_row src_col
            in if blank (get_piece_at db user intermediate_square) \<and> blank dest_piece
               then (True, [])
               else (False, ''Path is not clear for pawn's double move.''))
         else if \<bar>d_col\<bar> = 1 \<and> d_row = direction then
           (if \<not> blank dest_piece then (True, [])
            else (False, ''Pawn diagonal move must capture an enemy piece.''))
         else (False, ''Illegal pawn move.''))"

definition shape_rules ::
  "'u objects \<Rightarrow> 'u \<Rightarrow> string \<Rightarrow> string \<Rightarrow> string \<Rightarrow> string \<Rightarrow> string
     \<Rightarrow> int \<Rightarrow> int \<Rightarrow> int \<Rightarrow> int \<Rightarrow> bool \<times> string" where
  "shape_rules db user source destination piece_type piece_color dest_piece
       src_row src_col d_row d_col =
     (if piece_type = ''pawn'' then
        pawn_rules db user piece_color dest_piece src_row src_col d_row d_col
      else if piece_type = ''knight'' then
        (if (\<bar>d_row\<bar>, \<bar>d_col\<bar>) \<in> set [(1, 2), (2, 1)] then (True, [])
         else (False, ''Illegal knight move.''))
      else if piece_type = ''bishop'' then
        (if \<bar>d_row\<bar> = \<bar>d_col\<bar> \<and> is_path_clear db user source destination = Inr True
         then (True, [])
         else (False, ''Illegal bishop move or path is blocked.''))
      else if piece_type = ''rook'' then
        (if (d_row = 0 \<or> d_col = 0) \<and> is_path_clear db user source destination = Inr True
         then (True, [])
         else (False, ''Illegal rook move or path is blocked.''))
      else if piece_type = ''queen'' then
        (if (\<bar>d_row\<bar> = \<bar>d_col\<bar> \<or> (d_row = 0 \<or> d_col = 0))
            \<and> is_path_clear db user source destination = Inr True
         then (True, [])
         else (False, ''Illegal queen move or path is blocked.''))
      else if piece_type = ''king'' then
        (if max \<bar>d_row\<bar> \<bar>d_col\<bar> = 1 then (True, [])
         else (False, ''Illegal king move.''))
      else (False, ''Move not recognized.''))"

text \<open>The test of lines 115--119: the destination holds a piece of the mover's colour.\<close>

definition own_piece :: "string \<Rightarrow> string \<Rightarrow> bool" where
  "own_piece dest_piece piece_color =
     (\<not> blank dest_piece \<and>
      (case PIECE_MAPPING dest_piece of
         Some (_, dest_color) \<Rightarrow> dest_color = piece_color
       | None \<Rightarrow> False))"

definition validate_move ::
  "'u objects \<Rightarrow> 'u \<Rightarrow> string \<Rightarrow> string \<Rightarrow> string \<Rightarrow> bool \<times> string" where
  "validate_move db user source destination piece =
     (case square_to_indices source of
        Inl e \<Rightarrow> (False, e)
      | Inr (src_row, src_col) \<Rightarrow>
     (case square_to_indices destination of
        Inl e \<Rightarrow> (False, e)
      | Inr (dst_row, dst_col) \<Rightarrow>
     (case PIECE_MAPPING piece of
        None \<Rightarrow> (False, ''Unknown piece type.'')
      | Some (piece_type, piece_color) \<Rightarrow>
          (let dest_piece = get_piece_at db user destination
           in if own_piece dest_piece piece_color
              then (False, ''Cannot capture your own piece.'')
              else (let d_row = dst_row - src_row;
                        d_col = dst_col - src_col
                    in shape_rules db user source destination piece_type piece_color
                         dest_piece src_row src_col d_row d_col)))))"

text \<open>
  \<open>move_piece\<close> returns the table with the tuple \<open>(success, message)\<close>.  Its three
  writes are: delete the destination's row, save the source's row with the value
  \<open>&nbsp;\<close>, create the destination's row with the piece.  The writes are reached
  only with source and destination distinct (lemma \<open>move_piece_distinct\<close> below), so
  the saved row still exists and the created row does not.
\<close>

definition move_piece ::
  "'u objects \<Rightarrow> 'u \<Rightarrow> string \<Rightarrow> string \<Rightarrow> 'u objects \<times> bool \<times> string" where
  "move_piece db user source destination =
     (case db (user, source) of
        None \<Rightarrow> (db, False, ''Source square not found.'')
      | Some piece \<Rightarrow>
          if no_piece piece then (db, False, ''No piece at source.'')
          else (case validate_move db user source destination piece of
                  (False, message) \<Rightarrow> (db, False, message)
                | (True, message) \<Rightarrow>
                    (let db1 = db((user, destination) := None);
                         db2 = db1((user, source) \<mapsto> ''&nbsp;'');
                         db3 = db2((user, destination) \<mapsto> piece)
                     in (db3, True, ''Move completed.''))))"

text \<open>
  \<open>reset_game\<close>: the rows of the user are deleted, then the two loops run over the
  dictionary \<open>initial_board\<close> in its order and create one row per square; the index
  \<open>i\<close> of \<open>files[i]\<close> ranges over the eight pieces of a rank.
\<close>

definition files :: string where
  "files = ''abcdefgh''"

definition place_rows ::
  "'u objects \<Rightarrow> 'u \<Rightarrow> (string \<times> string list) list \<Rightarrow> 'u objects" where
  "place_rows db user initial_board =
     foldl (\<lambda>db1 (rank, pieces).
        foldl (\<lambda>db2 (i, piece). db2((user, files ! i # rank) \<mapsto> piece))
              db1 (enumerate 0 pieces))
       db initial_board"

definition delete_user :: "'u objects \<Rightarrow> 'u \<Rightarrow> 'u objects" where
  "delete_user db user = (\<lambda>(u, location). if u = user then None else db (u, location))"

definition reset_game :: "'u objects \<Rightarrow> 'u \<Rightarrow> 'u objects" where
  "reset_game db user =
     place_rows (delete_user db user) user
       [(''1'', [''&#9820;'', ''&#9822;'', ''&#9821;'', ''&#9819;'',
                 ''&#9818;'', ''&#9821;'', ''&#9822;'', ''&#9820;'']),
        (''2'', replicate 8 ''&#9823;''),
        (''3'', replicate 8 ''&nbsp;''),
        (''4'', replicate 8 ''&nbsp;''),
        (''5'', replicate 8 ''&nbsp;''),
        (''6'', replicate 8 ''&nbsp;''),
        (''7'', replicate 8 ''&#9817;''),
        (''8'', [''&#9814;'', ''&#9816;'', ''&#9815;'', ''&#9813;'',
                 ''&#9812;'', ''&#9815;'', ''&#9816;'', ''&#9814;''])]"

section \<open>forms.py: the square validator and the move form\<close>

datatype exn = ValidationError string | ValueError

text \<open>\<open>None\<close>: the validator returns; \<open>Some e\<close>: it raises \<open>e\<close>.\<close>

definition validate_square :: "string \<Rightarrow> exn option" where
  "validate_square v =
     (case v of
        [f, rank] \<Rightarrow>
          (let file = py_lower f
           in if file \<notin> set ''abcdefgh''
              then Some (ValidationError ''File must be a letter from a to h.'')
              else if \<not> py_isdigit rank
              then Some (ValidationError ''Rank must be a number from 1 to 8.'')
              else (case py_int rank of
                      None \<Rightarrow> Some ValueError
                    | Some n \<Rightarrow>
                        if \<not> (1 \<le> n \<and> n \<le> 8)
                        then Some (ValidationError ''Rank must be a number from 1 to 8.'')
                        else None))
      | _ \<Rightarrow> Some (ValidationError ''Enter a square in the format e2.''))"

text \<open>
  \<open>ChessForm\<close>: both fields are stripped (\<open>strip=True\<close>) and validated, the source
  first.  A \<open>ValidationError\<close> makes the form invalid; any other exception leaves
  the view.
\<close>

datatype form_result = Cleaned string string | Invalid | Raised

definition ChessForm :: "string \<Rightarrow> string \<Rightarrow> form_result" where
  "ChessForm raw_source raw_destination =
     (let source = py_strip raw_source;
          destination = py_strip raw_destination
      in if validate_square source = Some ValueError then Raised
         else if validate_square destination = Some ValueError then Raised
         else if validate_square source = None \<and> validate_square destination = None
         then Cleaned source destination
         else Invalid)"

section \<open>views.py: starting a game, processing a move, rendering the board\<close>

definition newGame :: "'u objects \<Rightarrow> 'u \<Rightarrow> 'u objects" where
  "newGame db user =
     place_rows (delete_user db user) user
       [(''8'', [''&#9820;'', ''&#9822;'', ''&#9821;'', ''&#9819;'',
                 ''&#9818;'', ''&#9821;'', ''&#9822;'', ''&#9820;'']),
        (''7'', replicate 8 ''&#9823;''),
        (''6'', replicate 8 ''&nbsp;''),
        (''5'', replicate 8 ''&nbsp;''),
        (''4'', replicate 8 ''&nbsp;''),
        (''3'', replicate 8 ''&nbsp;''),
        (''2'', replicate 8 ''&#9817;''),
        (''1'', [''&#9814;'', ''&#9816;'', ''&#9815;'', ''&#9813;'',
                 ''&#9812;'', ''&#9815;'', ''&#9816;'', ''&#9814;''])]"

text \<open>
  What a move request leaves behind besides the table and the session's turn: the
  move was made, \<open>page_data["error"]\<close> was set, the form was invalid, or an
  exception left the view.
\<close>

datatype outcome = Accepted | Error string | FormInvalid | Crash

text \<open>
  Lines 29--50 of \<open>chess_view\<close>, on the cleaned source and destination: the
  operation the specification calls \<open>apply_move\<close>.  It returns the table, the
  session's turn and the outcome.
\<close>

definition apply_move ::
  "'u objects \<Rightarrow> 'u \<Rightarrow> string \<Rightarrow> string \<Rightarrow> string \<Rightarrow> 'u objects \<times> string \<times> outcome" where
  "apply_move db user source destination turn =
     (let piece = get_piece_at db user source
      in if no_piece piece
         then (db, turn, Error ''No piece at the source square.'')
         else (case PIECE_MAPPING piece of
                 Some (piece_type, piece_color) \<Rightarrow>
                   if piece_color \<noteq> turn
                   then (db, turn, Error (''It is '' @ turn @ '''s turn.''))
                   else (case move_piece db user source destination of
                           (db', True, message) \<Rightarrow>
                             (db', if turn = ''white'' then ''black'' else ''white'', Accepted)
                         | (db', False, message) \<Rightarrow> (db', turn, Error message))
               | None \<Rightarrow> (db, turn, Error ''Unrecognized piece.'')))"

text \<open>The move branch of \<open>chess_view\<close> for a POST request: the form, then lines 25--50.\<close>

definition chess_view_move ::
  "'u objects \<Rightarrow> 'u \<Rightarrow> string \<Rightarrow> string \<Rightarrow> string \<Rightarrow> 'u objects \<times> string \<times> outcome" where
  "chess_view_move db user raw_source raw_destination turn =
     (case ChessForm raw_source raw_destination of
        Raised \<Rightarrow> (db, turn, Crash)
      | Invalid \<Rightarrow> (db, turn, FormInvalid)
      | Cleaned source destination \<Rightarrow> apply_move db user source destination turn)"

text \<open>Lines 62--71 of \<open>chess_view\<close>: the grid that is rendered, rank 8 first.\<close>

definition board_grid :: "'u objects \<Rightarrow> 'u \<Rightarrow> string list list" where
  "board_grid db user =
     map (\<lambda>rank. map (\<lambda>file. case db (user, file # py_str rank) of
                               Some v \<Rightarrow> v | None \<Rightarrow> ''&nbsp;'') ''abcdefgh'')
         (rev [1 .. 8])"

section \<open>Positions used in the examples\<close>

text \<open>The names of the 64 squares in the order in which \<open>chess_view\<close> renders them.\<close>

definition board_locations :: "string list" where
  "board_locations =
     concat (map (\<lambda>rank. map (\<lambda>file. file # py_str rank) ''abcdefgh'') (rev [1 .. 8]))"

text \<open>The table after \<open>newGame\<close> for user 0 on an empty database.\<close>

definition start_position :: "nat objects" where
  "start_position = newGame Map.empty 0"

text \<open>The table after \<open>reset_game\<close> for user 0 on an empty database.\<close>

definition reset_position :: "nat objects" where
  "reset_position = reset_game Map.empty 0"

text \<open>
  A white rook on a1, white pawns on a2, e2 and h3, a black pawn on d3; every other
  square has no row.
\<close>

definition sparse_position :: "nat objects" where
  "sparse_position = Map.empty
     ((0, ''a1'') \<mapsto> ''&#9814;'',
      (0, ''a2'') \<mapsto> ''&#9817;'',
      (0, ''e2'') \<mapsto> ''&#9817;'',
      (0, ''h3'') \<mapsto> ''&#9817;'',
      (0, ''d3'') \<mapsto> ''&#9823;'')"

text \<open>
  White rooks on a1 and d1, white pawns on a2, e2 and g2, black pawns on d3, e3 and
  g4; every other square has no row.
\<close>

definition alias_position :: "nat objects" where
  "alias_position = Map.empty
     ((0, ''a1'') \<mapsto> ''&#9814;'',
      (0, ''d1'') \<mapsto> ''&#9814;'',
      (0, ''a2'') \<mapsto> ''&#9817;'',
      (0, ''e2'') \<mapsto> ''&#9817;'',
      (0, ''g2'') \<mapsto> ''&#9817;'',
      (0, ''d3'') \<mapsto> ''&#9823;'',
      (0, ''e3'') \<mapsto> ''&#9823;'',
      (0, ''g4'') \<mapsto> ''&#9823;'')"

section \<open>Basic facts about the piece table and the single functions\<close>

lemmas string_defs =
  py_ord_def py_chr_def py_isspace_def py_strip_def py_lower_def py_isdigit_def py_int_def
  py_str_def digits.simps char_of_def

lemmas upto_from_one = upto.simps [of 1 "numeral n"] for n

lemmas move_defs = upto_from_one
  apply_move_def move_piece_def validate_move_def shape_rules_def pawn_rules_def
  is_path_clear_def square_to_indices_def square_name_def get_piece_at_def own_piece_def
  no_piece_def blank_def PIECE_MAPPING_def Let_def

lemma PIECE_MAPPING_cases:
  "PIECE_MAPPING p = Some (k, c) \<Longrightarrow>
     (c = ''white'' \<or> c = ''black'') \<and>
     k \<in> {''pawn'', ''rook'', ''knight'', ''bishop'', ''queen'', ''king''}"
  by (simp add: PIECE_MAPPING_def split: if_splits)

lemma PIECE_MAPPING_not_blank:
  "PIECE_MAPPING p = Some kc \<Longrightarrow> \<not> blank p \<and> \<not> no_piece p"
  by (auto simp add: PIECE_MAPPING_def blank_def no_piece_def py_strip_def py_isspace_def
      py_ord_def split: if_splits)

lemma validate_move_cases:
  "validate_move db user source destination piece =
     (case square_to_indices source of
        Inl e \<Rightarrow> (False, e)
      | Inr (src_row, src_col) \<Rightarrow>
     (case square_to_indices destination of
        Inl e \<Rightarrow> (False, e)
      | Inr (dst_row, dst_col) \<Rightarrow>
     (case PIECE_MAPPING piece of
        None \<Rightarrow> (False, ''Unknown piece type.'')
      | Some (piece_type, piece_color) \<Rightarrow>
          if own_piece (get_piece_at db user destination) piece_color
          then (False, ''Cannot capture your own piece.'')
          else shape_rules db user source destination piece_type piece_color
                 (get_piece_at db user destination) src_row src_col
                 (dst_row - src_row) (dst_col - src_col))))"
  by (simp add: validate_move_def Let_def split: sum.splits option.splits prod.splits)

lemma validate_move_null:
  assumes "PIECE_MAPPING piece = Some (k, c)" and "get_piece_at db user s = piece"
  shows "fst (validate_move db user s s piece) = False"
  using assms PIECE_MAPPING_not_blank [of piece "(k, c)"]
  by (auto simp add: validate_move_cases own_piece_def split: sum.splits)

lemma move_piece_rejected:
  "move_piece db user source destination = (db', False, message) \<Longrightarrow> db' = db"
  by (auto simp add: move_piece_def Let_def
      split: option.splits if_splits prod.splits bool.splits)

lemma move_piece_accepted:
  assumes "move_piece db user source destination = (db', True, message)"
  shows "\<exists>piece. db (user, source) = Some piece \<and> get_piece_at db user source = piece
           \<and> fst (validate_move db user source destination piece)
           \<and> db' = db((user, destination) := None, (user, source) \<mapsto> ''&nbsp;'',
                       (user, destination) \<mapsto> piece)"
  using assms
  by (auto simp add: move_piece_def get_piece_at_def Let_def
      split: option.splits if_splits prod.splits bool.splits)

lemma apply_move_rejected:
  assumes "apply_move db user source destination turn = (db', turn', r)" and "r \<noteq> Accepted"
  shows "db' = db \<and> turn' = turn"
  using assms
  by (auto simp add: apply_move_def Let_def dest: move_piece_rejected
      split: option.splits if_splits prod.splits bool.splits)

lemma chess_view_move_rejected:
  assumes "chess_view_move db user raw_source raw_destination turn = (db', turn', r)"
      and "r \<noteq> Accepted"
  shows "db' = db \<and> turn' = turn"
  using assms
  by (auto simp add: chess_view_move_def dest: apply_move_rejected split: form_result.splits)

lemma apply_move_accepted:
  assumes "apply_move db user source destination turn = (db', turn', Accepted)"
  shows "\<exists>piece k. get_piece_at db user source = piece \<and> PIECE_MAPPING piece = Some (k, turn)
           \<and> fst (validate_move db user source destination piece)
           \<and> source \<noteq> destination
           \<and> turn' = (if turn = ''white'' then ''black'' else ''white'')
           \<and> db' = db((user, destination) := None, (user, source) \<mapsto> ''&nbsp;'',
                       (user, destination) \<mapsto> piece)"
proof -
  from assms obtain piece k m where
    p: "get_piece_at db user source = piece" "PIECE_MAPPING piece = Some (k, turn)" and
    m: "move_piece db user source destination = (db', True, m)" and
    t: "turn' = (if turn = ''white'' then ''black'' else ''white'')"
    by (auto simp add: apply_move_def Let_def
        split: option.splits if_splits prod.splits bool.splits)
  from move_piece_accepted [OF m] p have
    v: "fst (validate_move db user source destination piece)" and
    d: "db' = db((user, destination) := None, (user, source) \<mapsto> ''&nbsp;'',
                       (user, destination) \<mapsto> piece)"
    by auto
  have "source \<noteq> destination"
    using v validate_move_null [OF p(2) p(1)] by auto
  with p v d t show ?thesis by blast
qed

lemma move_piece_distinct:
  assumes "move_piece db user source destination = (db', True, message)"
  shows "source \<noteq> destination"
proof -
  from move_piece_accepted [OF assms] obtain piece where
    p: "get_piece_at db user source = piece"
       "fst (validate_move db user source destination piece)"
    by blast
  then obtain k c where "PIECE_MAPPING piece = Some (k, c)"
    by (cases "PIECE_MAPPING piece") (auto simp add: validate_move_cases split: sum.splits)
  from validate_move_null [OF this p(1)] p(2) show ?thesis by auto
qed

section \<open>Squares that the form accepts\<close>

text \<open>
  A square that passes \<open>validate_square\<close> is left alone by the form's \<open>strip\<close> and is
  parsed by \<open>square_to_indices\<close> into indices on the board, so for such squares the move
  branch of \<open>chess_view\<close> is \<open>apply_move\<close> on the strings as typed.
\<close>

lemma validate_square_shape:
  assumes "validate_square s = None"
  obtains f rank n where "s = [f, rank]" "py_lower f \<in> set ''abcdefgh''"
    "py_int rank = Some n" "1 \<le> n" "n \<le> 8"
  using assms
  by (auto simp add: validate_square_def Let_def
      split: list.splits if_splits option.splits)

lemma validate_square_indices:
  assumes "validate_square s = None"
  shows "\<exists>r c. square_to_indices s = Inr (r, c) \<and> 0 \<le> r \<and> r < 8 \<and> 0 \<le> c \<and> c < 8"
proof -
  from assms obtain f rank n where
    s: "s = [f, rank]" and f: "py_lower f \<in> set ''abcdefgh''" and
    n: "py_int rank = Some n" "1 \<le> n" "n \<le> 8"
    by (rule validate_square_shape)
  from f have "0 \<le> py_ord (py_lower f) - py_ord CHR ''a'' \<and>
      py_ord (py_lower f) - py_ord CHR ''a'' < 8"
    by (auto simp add: py_ord_def)
  with s n show ?thesis
    by (simp add: square_to_indices_def Let_def)
qed

lemma validate_square_strip:
  assumes "validate_square s = None"
  shows "py_strip s = s"
proof -
  from assms obtain f rank n where
    s: "s = [f, rank]" and f: "py_lower f \<in> set ''abcdefgh''" and
    n: "py_int rank = Some n"
    by (rule validate_square_shape)
  have r: "\<not> py_isspace rank"
    using n by (auto simp add: py_int_def py_isspace_def Let_def split: if_splits)
  have "\<not> py_isspace f"
  proof (cases "(65 \<le> py_ord f \<and> py_ord f \<le> 90) \<or>
                (192 \<le> py_ord f \<and> py_ord f \<le> 222 \<and> py_ord f \<noteq> 215)")
    case True
    then show ?thesis by (auto simp add: py_isspace_def)
  next
    case False
    then have "py_lower f = f" by (auto simp add: py_lower_def Let_def)
    with f show ?thesis by (auto simp add: py_isspace_def py_ord_def)
  qed
  with r s show ?thesis by (simp add: py_strip_def)
qed

lemma chess_view_move_valid:
  assumes "validate_square source = None" and "validate_square destination = None"
  shows "chess_view_move db user source destination turn =
           apply_move db user source destination turn"
  using assms validate_square_strip [OF assms(1)] validate_square_strip [OF assms(2)]
  by (simp add: chess_view_move_def ChessForm_def)

text \<open>\<open>is_path_clear\<close> raises nothing once both squares have been parsed.\<close>

lemma is_path_clear_returns:
  assumes "square_to_indices source = Inr (sr, sc)"
      and "square_to_indices destination = Inr (dr, dc)"
  shows "\<exists>b. is_path_clear db user source destination = Inr b"
  using assms by (auto simp add: is_path_clear_def Let_def)

lemma apply_move_turn:
  "(snd (snd (apply_move db user source destination turn)) = Accepted \<longrightarrow>
      (turn = ''white'' \<and> fst (snd (apply_move db user source destination turn)) = ''black'') \<or>
      (turn = ''black'' \<and> fst (snd (apply_move db user source destination turn)) = ''white'')) \<and>
   (snd (snd (apply_move db user source destination turn)) \<noteq> Accepted \<longrightarrow>
      fst (snd (apply_move db user source destination turn)) = turn)"
proof (intro conjI impI)
  assume "snd (snd (apply_move db user source destination turn)) = Accepted"
  then have "apply_move db user source destination turn =
      (fst (apply_move db user source destination turn),
       fst (snd (apply_move db user source destination turn)), Accepted)"
    by (metis prod.collapse)
  from apply_move_accepted [OF this] obtain piece k where
    "PIECE_MAPPING piece = Some (k, turn)"
    "fst (snd (apply_move db user source destination turn)) =
       (if turn = ''white'' then ''black'' else ''white'')"
    by blast
  then show "(turn = ''white'' \<and> fst (snd (apply_move db user source destination turn)) = ''black'') \<or>
      (turn = ''black'' \<and> fst (snd (apply_move db user source destination turn)) = ''white'')"
    using PIECE_MAPPING_cases [of piece k turn] by auto
next
  assume "snd (snd (apply_move db user source destination turn)) \<noteq> Accepted"
  then show "fst (snd (apply_move db user source destination turn)) = turn"
    using apply_move_rejected [of db user source destination turn] by (metis prod.collapse)
qed

lemma chess_view_move_cases:
  "chess_view_move db user raw_source raw_destination turn =
      apply_move db user (py_strip raw_source) (py_strip raw_destination) turn \<or>
   chess_view_move db user raw_source raw_destination turn = (db, turn, FormInvalid) \<or>
   chess_view_move db user raw_source raw_destination turn = (db, turn, Crash)"
  by (simp add: chess_view_move_def ChessForm_def Let_def)

section \<open>Evaluation of the example position\<close>

lemma sparse_rook_blocked:
  "apply_move sparse_position 0 ''a1'' ''a8'' ''white'' =
     (sparse_position, ''white'', Error ''Illegal rook move or path is blocked.'')"
  by (simp add: sparse_position_def move_defs string_defs)

lemma sparse_pawn_double:
  "snd (apply_move sparse_position 0 ''e2'' ''e4'' ''white'') = (''black'', Accepted)"
  by (simp add: sparse_position_def move_defs string_defs)

lemma sparse_pawn_captures:
  "apply_move sparse_position 0 ''e2'' ''d3'' ''white'' =
     (sparse_position((0, ''e2'') \<mapsto> ''&nbsp;'', (0, ''d3'') \<mapsto> ''&#9817;''),
      ''black'', Accepted)"
  by (simp add: sparse_position_def move_defs string_defs fun_upd_twist)

lemma sparse_form_invalid:
  "chess_view_move sparse_position 0 ''a1'' ''z9'' ''white'' =
     (sparse_position, ''white'', FormInvalid)"
  by (simp add: chess_view_move_def ChessForm_def validate_square_def string_defs)

lemma sparse_view_pawn_double:
  "snd (chess_view_move sparse_position 0 ''e2'' ''e4'' ''white'') = (''black'', Accepted)"
  by (simp add: chess_view_move_def ChessForm_def validate_square_def sparse_position_def
      move_defs string_defs)

section \<open>Rejected moves change nothing\<close>

text \<open>
  Claim C3.  Whenever a move is rejected, the table and the session's turn after the
  call are the ones before it.  This holds for \<open>apply_move\<close> on every table, user,
  source, destination and turn (an empty source, the wrong turn, an unrecognised piece,
  a malformed square reported by \<open>validate_move\<close>, a capture of an own piece, a shape
  or path violation), and for the whole move branch of \<open>chess_view\<close>, where the form
  may also be invalid or the validator may raise: the three writes of \<open>move_piece\<close> are
  reached only after \<open>validate_move\<close> has returned \<open>True\<close>.
\<close>

theorem no_mutation_on_reject:
  "(snd (snd (apply_move db user source destination turn)) \<noteq> Accepted \<longrightarrow>
      fst (apply_move db user source destination turn) = db \<and>
      fst (snd (apply_move db user source destination turn)) = turn) \<and>
   (snd (snd (chess_view_move db user raw_source raw_destination turn)) \<noteq> Accepted \<longrightarrow>
      fst (chess_view_move db user raw_source raw_destination turn) = db \<and>
      fst (snd (chess_view_move db user raw_source raw_destination turn)) = turn)"
  using apply_move_rejected [of db user source destination turn]
    chess_view_move_rejected [of db user raw_source raw_destination turn]
  by (metis prod.collapse)

theorem no_mutation_on_reject_witness:
  "snd (snd (apply_move sparse_position 0 ''a1'' ''a8'' ''white'')) \<noteq> Accepted \<and>
   fst (apply_move sparse_position 0 ''a1'' ''a8'' ''white'') = sparse_position \<and>
   fst (snd (apply_move sparse_position 0 ''a1'' ''a8'' ''white'')) = ''white'' \<and>
   snd (snd (chess_view_move sparse_position 0 ''a1'' ''z9'' ''white'')) \<noteq> Accepted \<and>
   fst (chess_view_move sparse_position 0 ''a1'' ''z9'' ''white'') = sparse_position \<and>
   fst (snd (chess_view_move sparse_position 0 ''a1'' ''z9'' ''white'')) = ''white''"
  using no_mutation_on_reject [of sparse_position 0 "''a1''" "''a8''" "''white''" "''a1''" "''z9''"]
  by (simp add: sparse_rook_blocked sparse_form_invalid)

section \<open>The turn alternates on accepted moves only\<close>

text \<open>
  Claim C4.  If \<open>apply_move\<close> accepts the move, the turn passed in is one of the two
  colours and the new turn is the other one; if it rejects the move, the turn is
  unchanged.  The same holds for the whole move branch of \<open>chess_view\<close>.
\<close>

theorem turn_alternation:
  "(snd (snd (apply_move db user source destination turn)) = Accepted \<longrightarrow>
      (turn = ''white'' \<and> fst (snd (apply_move db user source destination turn)) = ''black'') \<or>
      (turn = ''black'' \<and> fst (snd (apply_move db user source destination turn)) = ''white'')) \<and>
   (snd (snd (apply_move db user source destination turn)) \<noteq> Accepted \<longrightarrow>
      fst (snd (apply_move db user source destination turn)) = turn) \<and>
   (snd (snd (chess_view_move db user raw_source raw_destination turn)) = Accepted \<longrightarrow>
      (turn = ''white'' \<and>
       fst (snd (chess_view_move db user raw_source raw_destination turn)) = ''black'') \<or>
      (turn = ''black'' \<and>
       fst (snd (chess_view_move db user raw_source raw_destination turn)) = ''white'')) \<and>
   (snd (snd (chess_view_move db user raw_source raw_destination turn)) \<noteq> Accepted \<longrightarrow>
      fst (snd (chess_view_move db user raw_source raw_destination turn)) = turn)"
  using apply_move_turn [of db user source destination turn]
    apply_move_turn [of db user "py_strip raw_source" "py_strip raw_destination" turn]
    chess_view_move_cases [of db user raw_source raw_destination turn]
  by (elim disjE conjE; simp)

theorem turn_alternation_witness:
  "snd (snd (apply_move sparse_position 0 ''e2'' ''e4'' ''white'')) = Accepted \<and>
   fst (snd (apply_move sparse_position 0 ''e2'' ''e4'' ''white'')) = ''black'' \<and>
   snd (snd (apply_move sparse_position 0 ''a1'' ''a8'' ''white'')) \<noteq> Accepted \<and>
   fst (snd (apply_move sparse_position 0 ''a1'' ''a8'' ''white'')) = ''white'' \<and>
   snd (snd (chess_view_move sparse_position 0 ''e2'' ''e4'' ''white'')) = Accepted \<and>
   fst (snd (chess_view_move sparse_position 0 ''e2'' ''e4'' ''white'')) = ''black'' \<and>
   snd (snd (chess_view_move sparse_position 0 ''a1'' ''z9'' ''white'')) \<noteq> Accepted \<and>
   fst (snd (chess_view_move sparse_position 0 ''a1'' ''z9'' ''white'')) = ''white''"
  using turn_alternation [of sparse_position 0 "''e2''" "''e4''" "''white''" "''e2''" "''e4''"]
    turn_alternation [of sparse_position 0 "''a1''" "''a8''" "''white''" "''a1''" "''z9''"]
  by (simp add: sparse_rook_blocked sparse_pawn_double sparse_view_pawn_double
      sparse_form_invalid)

section \<open>A capture replaces the occupant of the destination\<close>

text \<open>
  On the rows as they are stored and looked up, that is for the location strings as
  typed: when a move is accepted and the destination's row held a piece of the other
  colour, that row afterwards holds exactly the piece that stood on the source (so the
  former occupant is gone), and the source's row is empty.
\<close>

lemma capture_replaces_occupant:
  assumes "snd (snd (apply_move db user source destination turn)) = Accepted"
      and "PIECE_MAPPING (get_piece_at db user destination) = Some (kind, color)"
      and "color \<noteq> turn"
  shows "fst (apply_move db user source destination turn) (user, destination) =
           Some (get_piece_at db user source) \<and>
         get_piece_at (fst (apply_move db user source destination turn)) user destination
           \<noteq> get_piece_at db user destination \<and>
         get_piece_at (fst (apply_move db user source destination turn)) user source
           = ''&nbsp;''"
proof -
  let ?db' = "fst (apply_move db user source destination turn)"
  from assms(1) have "apply_move db user source destination turn =
      (?db', fst (snd (apply_move db user source destination turn)), Accepted)"
    by (metis prod.collapse)
  from apply_move_accepted [OF this] obtain piece k where
    p: "get_piece_at db user source = piece" "PIECE_MAPPING piece = Some (k, turn)"
       "source \<noteq> destination"
       "?db' = db((user, destination) := None, (user, source) \<mapsto> ''&nbsp;'',
                       (user, destination) \<mapsto> piece)"
    by blast
  have "piece \<noteq> get_piece_at db user destination"
    using p(2) assms(2,3) by auto
  with p show ?thesis by (simp add: get_piece_at_def)
qed

lemma capture_replaces_occupant_example:
  "snd (snd (apply_move sparse_position 0 ''e2'' ''d3'' ''white'')) = Accepted \<and>
   PIECE_MAPPING (get_piece_at sparse_position 0 ''d3'') = Some (''pawn'', ''black'') \<and>
   fst (apply_move sparse_position 0 ''e2'' ''d3'' ''white'') (0, ''d3'') = Some ''&#9817;'' \<and>
   get_piece_at (fst (apply_move sparse_position 0 ''e2'' ''d3'' ''white'')) 0 ''e2'' = ''&nbsp;''"
  using capture_replaces_occupant
    [of sparse_position 0 "''e2''" "''d3''" "''white''" "''pawn''" "''black''"]
  by (simp add: sparse_pawn_captures)
    (simp add: sparse_position_def get_piece_at_def PIECE_MAPPING_def)

text \<open>
  Claim C8 fails when the destination is typed with an upper-case file letter.  The
  form accepts \<open>D3\<close>, which is the square d3, here held by a black pawn.  The white
  rook on d1 may capture on d3 and in lower case does so; typed as d1 to \<open>D3\<close> the
  move is accepted too, but \<open>move_piece\<close> deletes and creates the row of location
  \<open>D3\<close>: the square d3 keeps the black pawn, and the rook is stored under a location
  that the rendered board never shows.  This is the defect of claim C9.
\<close>

theorem capture_alias_keeps_occupant:
  "validate_square ''D3'' = None \<and>
   square_to_indices ''D3'' = square_to_indices ''d3'' \<and>
   PIECE_MAPPING (get_piece_at alias_position 0 ''d1'') = Some (''rook'', ''white'') \<and>
   PIECE_MAPPING (get_piece_at alias_position 0 ''d3'') = Some (''pawn'', ''black'') \<and>
   snd (chess_view_move alias_position 0 ''d1'' ''d3'' ''white'') = (''black'', Accepted) \<and>
   get_piece_at (fst (chess_view_move alias_position 0 ''d1'' ''d3'' ''white'')) 0 ''d3''
     = ''&#9814;'' \<and>
   snd (chess_view_move alias_position 0 ''d1'' ''D3'' ''white'') = (''black'', Accepted) \<and>
   get_piece_at (fst (chess_view_move alias_position 0 ''d1'' ''D3'' ''white'')) 0 ''d3''
     = ''&#9823;'' \<and>
   get_piece_at (fst (chess_view_move alias_position 0 ''d1'' ''D3'' ''white'')) 0 ''D3''
     = ''&#9814;'' \<and>
   get_piece_at (fst (chess_view_move alias_position 0 ''d1'' ''D3'' ''white'')) 0 ''d1''
     = ''&nbsp;'' \<and>
   board_grid (fst (chess_view_move alias_position 0 ''d1'' ''D3'' ''white'')) 0 ! 5 =
     [''&nbsp;'', ''&nbsp;'', ''&nbsp;'', ''&#9823;'', ''&#9823;'', ''&nbsp;'', ''&nbsp;'',
      ''&nbsp;'']"
  by code_simp

section \<open>A null move is a capture of an own piece\<close>

text \<open>
  When source and destination are the same string \<open>s\<close>, a well-formed square whose
  row holds a piece of the colour whose turn it is, of whatever kind, the move is
  rejected with the message of the own-piece check, and the table and the turn are
  unchanged.
\<close>

lemma null_move_rejected:
  assumes "square_to_indices s = Inr (r, c)"
      and "PIECE_MAPPING (get_piece_at db user s) = Some (kind, turn)"
  shows "apply_move db user s s turn = (db, turn, Error ''Cannot capture your own piece.'')"
proof -
  let ?p = "get_piece_at db user s"
  from PIECE_MAPPING_not_blank [OF assms(2)]
  have nb: "\<not> blank ?p" "\<not> no_piece ?p" by auto
  then have row: "db (user, s) = Some ?p"
    by (auto simp add: get_piece_at_def no_piece_def split: option.splits)
  have v: "validate_move db user s s ?p = (False, ''Cannot capture your own piece.'')"
    using assms nb by (simp add: validate_move_cases own_piece_def)
  have "move_piece db user s s = (db, False, ''Cannot capture your own piece.'')"
    using row nb v by (simp add: move_piece_def)
  then show ?thesis
    using assms(2) nb by (simp add: apply_move_def)
qed

lemma null_move_rejected_example:
  "square_to_indices ''a1'' = Inr (7, 0) \<and>
   PIECE_MAPPING (get_piece_at sparse_position 0 ''a1'') = Some (''rook'', ''white'') \<and>
   apply_move sparse_position 0 ''a1'' ''a1'' ''white'' =
     (sparse_position, ''white'', Error ''Cannot capture your own piece.'')"
  using null_move_rejected [of "''a1''" 7 0 sparse_position 0 "''rook''" "''white''"]
  by (simp add: sparse_position_def square_to_indices_def get_piece_at_def PIECE_MAPPING_def
      string_defs)

text \<open>
  Claim C10 fails when the same square is typed in two spellings.  The form accepts
  \<open>A1\<close>, which is the square a1, here held by a white rook with white to move.  In
  lower case the null move a1 to a1 is rejected with the own-piece message.  Typed as
  a1 to \<open>A1\<close> the own-piece check finds no row under \<open>A1\<close>, the rook's rule
  tolerates the zero delta, and the move is accepted: the turn passes to black, a1 is
  emptied and the rook is stored under the location \<open>A1\<close>.  Typed as \<open>A1\<close> to
  \<open>A1\<close> the answer is that the source holds no piece.  This is the defect of claim C9.
\<close>

theorem null_move_alias_accepted:
  "validate_square ''A1'' = None \<and>
   square_to_indices ''A1'' = square_to_indices ''a1'' \<and>
   PIECE_MAPPING (get_piece_at alias_position 0 ''a1'') = Some (''rook'', ''white'') \<and>
   snd (chess_view_move alias_position 0 ''a1'' ''a1'' ''white'') =
     (''white'', Error ''Cannot capture your own piece.'') \<and>
   snd (chess_view_move alias_position 0 ''a1'' ''A1'' ''white'') = (''black'', Accepted) \<and>
   get_piece_at (fst (chess_view_move alias_position 0 ''a1'' ''A1'' ''white'')) 0 ''a1''
     = ''&nbsp;'' \<and>
   snd (chess_view_move alias_position 0 ''A1'' ''A1'' ''white'') =
     (''white'', Error ''No piece at the source square.'')"
  by code_simp

section \<open>The order of the rejection checks\<close>

lemma apply_move_piece:
  assumes "square_to_indices source = Inr (sr, sc)"
      and "square_to_indices destination = Inr (dr, dc)"
      and "PIECE_MAPPING (get_piece_at db user source) = Some (kind, color)"
  shows "snd (snd (apply_move db user source destination turn)) =
     (if color \<noteq> turn
        then Error (''It is '' @ turn @ '''s turn.'')
      else if own_piece (get_piece_at db user destination) color
        then Error ''Cannot capture your own piece.''
      else (case shape_rules db user source destination kind color
                   (get_piece_at db user destination) sr sc (dr - sr) (dc - sc) of
              (True, message) \<Rightarrow> Accepted
            | (False, message) \<Rightarrow> Error message))"
proof -
  from PIECE_MAPPING_not_blank [OF assms(3)]
  have np: "\<not> no_piece (get_piece_at db user source)" by simp
  then have row: "db (user, source) = Some (get_piece_at db user source)"
    by (auto simp add: get_piece_at_def no_piece_def split: option.splits)
  show ?thesis
    using np row assms
    by (auto simp add: apply_move_def move_piece_def validate_move_cases
        split: prod.splits bool.splits)
qed

text \<open>
  On the rows as they are looked up, that is for the location strings as typed: for
  well-formed source and destination and a source row that is empty or holds one of
  the twelve pieces, \<open>apply_move\<close> answers with the message of the first failing check
  in this order: empty source row, wrong colour to move, destination row occupied by a
  piece of the mover's colour, the rules of the piece (shape and path); it accepts when
  none fails.
\<close>

lemma rejection_order:
  assumes "square_to_indices source = Inr (sr, sc)"
      and "square_to_indices destination = Inr (dr, dc)"
      and "no_piece (get_piece_at db user source) \<or>
           PIECE_MAPPING (get_piece_at db user source) = Some (kind, color)"
  shows "snd (snd (apply_move db user source destination turn)) =
     (if no_piece (get_piece_at db user source)
        then Error ''No piece at the source square.''
      else if color \<noteq> turn
        then Error (''It is '' @ turn @ '''s turn.'')
      else if own_piece (get_piece_at db user destination) color
        then Error ''Cannot capture your own piece.''
      else (case shape_rules db user source destination kind color
                   (get_piece_at db user destination) sr sc (dr - sr) (dc - sc) of
              (True, message) \<Rightarrow> Accepted
            | (False, message) \<Rightarrow> Error message))"
proof (cases "no_piece (get_piece_at db user source)")
  case True
  then show ?thesis by (simp add: apply_move_def)
next
  case False
  with assms(3) have "PIECE_MAPPING (get_piece_at db user source) = Some (kind, color)"
    by simp
  from apply_move_piece [OF assms(1,2) this, of turn] False show ?thesis
    by simp
qed

lemma rejection_order_example:
  "square_to_indices ''a1'' = Inr (7, 0) \<and> square_to_indices ''e2'' = Inr (6, 4) \<and>
   PIECE_MAPPING (get_piece_at sparse_position 0 ''a1'') = Some (''rook'', ''white'') \<and>
   own_piece (get_piece_at sparse_position 0 ''e2'') ''white'' \<and>
   fst (shape_rules sparse_position 0 ''a1'' ''e2'' ''rook'' ''white''
          (get_piece_at sparse_position 0 ''e2'') 7 0 (6 - 7) (4 - 0)) = False \<and>
   snd (snd (apply_move sparse_position 0 ''a1'' ''e2'' ''white'')) =
     Error ''Cannot capture your own piece.'' \<and>
   snd (snd (apply_move sparse_position 0 ''a1'' ''e2'' ''black'')) =
     Error ''It is black's turn.''"
  using rejection_order [of "''a1''" 7 0 "''e2''" 6 4 sparse_position 0 "''rook''" "''white''" "''white''"]
    rejection_order [of "''a1''" 7 0 "''e2''" 6 4 sparse_position 0 "''rook''" "''white''" "''black''"]
  by (simp add: sparse_position_def square_to_indices_def get_piece_at_def PIECE_MAPPING_def
      own_piece_def blank_def no_piece_def shape_rules_def string_defs)

text \<open>
  Claim C1 fails when the destination is typed with an upper-case file letter.  The
  form accepts \<open>E2\<close> and \<open>A2\<close>, which are the squares e2 and a2, each held by a
  white pawn, and the white rook on a1 is to move.  In lower case both moves are
  answered by the own-piece check, the third in the order.  Typed in upper case the
  own-piece check reads the row of the spelling as typed and finds none: a1 to \<open>E2\<close>
  falls through to the rook's shape message, and a1 to \<open>A2\<close> passes every check and
  is accepted.  This is the defect of claim C9.
\<close>

theorem rejection_order_alias:
  "validate_square ''E2'' = None \<and> validate_square ''A2'' = None \<and>
   square_to_indices ''E2'' = square_to_indices ''e2'' \<and>
   square_to_indices ''A2'' = square_to_indices ''a2'' \<and>
   PIECE_MAPPING (get_piece_at alias_position 0 ''a1'') = Some (''rook'', ''white'') \<and>
   PIECE_MAPPING (get_piece_at alias_position 0 ''e2'') = Some (''pawn'', ''white'') \<and>
   PIECE_MAPPING (get_piece_at alias_position 0 ''a2'') = Some (''pawn'', ''white'') \<and>
   snd (chess_view_move alias_position 0 ''a1'' ''e2'' ''white'') =
     (''white'', Error ''Cannot capture your own piece.'') \<and>
   snd (chess_view_move alias_position 0 ''a1'' ''E2'' ''white'') =
     (''white'', Error ''Illegal rook move or path is blocked.'') \<and>
   snd (chess_view_move alias_position 0 ''a1'' ''a2'' ''white'') =
     (''white'', Error ''Cannot capture your own piece.'') \<and>
   snd (chess_view_move alias_position 0 ''a1'' ''A2'' ''white'') = (''black'', Accepted)"
  by code_simp

section \<open>The path between two squares\<close>

lemma div_abs_sgn:
  fixes y :: int
  assumes "y \<noteq> 0"
  shows "y div \<bar>y\<bar> = sgn y"
proof (cases "0 < y")
  case True
  then show ?thesis by simp
next
  case False
  with assms have "y < 0" by simp
  then show ?thesis by (simp add: div_minus_right dvd_neg_div)
qed

lemma aligned_unit_step:
  fixes x y :: int
  assumes "x = 0 \<or> y = 0 \<or> \<bar>x\<bar> = \<bar>y\<bar>" and "1 < max \<bar>x\<bar> \<bar>y\<bar>"
  shows "x div max \<bar>x\<bar> \<bar>y\<bar> = sgn x \<and> y div max \<bar>x\<bar> \<bar>y\<bar> = sgn y"
proof -
  consider "x = 0" "y \<noteq> 0" | "y = 0" "x \<noteq> 0" | "\<bar>x\<bar> = \<bar>y\<bar>" "x \<noteq> 0" "y \<noteq> 0"
    using assms by fastforce
  then show ?thesis
  proof cases
    case 1
    then show ?thesis using div_abs_sgn [of y] by simp
  next
    case 2
    then show ?thesis using div_abs_sgn [of x] by simp
  next
    case 3
    then show ?thesis using div_abs_sgn [of x] div_abs_sgn [of y] by simp
  qed
qed

lemma path_loop_iff:
  "path_loop db user sr sc a b ks \<longleftrightarrow>
     (\<forall>k\<in>set ks. blank (get_piece_at db user (square_name (sr + k * a) (sc + k * b))))"
  by (induction ks) (simp_all add: Let_def)

lemma is_path_clear_aligned:
  assumes "square_to_indices source = Inr (sr, sc)"
      and "square_to_indices destination = Inr (dr, dc)"
      and "dr = sr \<or> dc = sc \<or> \<bar>dr - sr\<bar> = \<bar>dc - sc\<bar>"
  shows "is_path_clear db user source destination =
           Inr (\<forall>k\<in>{1 ..< max \<bar>dr - sr\<bar> \<bar>dc - sc\<bar>}.
                  blank (get_piece_at db user
                    (square_name (sr + k * sgn (dr - sr)) (sc + k * sgn (dc - sc)))))"
proof (cases "max \<bar>dr - sr\<bar> \<bar>dc - sc\<bar> \<le> 1")
  case True
  then have "{1 ..< max \<bar>dr - sr\<bar> \<bar>dc - sc\<bar>} = {}" by simp
  with True assms(1,2) show ?thesis
    by (simp add: is_path_clear_def Let_def)
next
  case False
  then have big: "1 < max \<bar>dr - sr\<bar> \<bar>dc - sc\<bar>" by linarith
  from assms(3) have "dr - sr = 0 \<or> dc - sc = 0 \<or> \<bar>dr - sr\<bar> = \<bar>dc - sc\<bar>" by auto
  from aligned_unit_step [OF this big]
  have st: "(dr - sr) div max \<bar>dr - sr\<bar> \<bar>dc - sc\<bar> = sgn (dr - sr)"
           "(dc - sc) div max \<bar>dr - sr\<bar> \<bar>dc - sc\<bar> = sgn (dc - sc)"
    by simp_all
  have rng: "{1 .. max \<bar>dr - sr\<bar> \<bar>dc - sc\<bar> - 1} = {1 ..< max \<bar>dr - sr\<bar> \<bar>dc - sc\<bar>}"
    by auto
  show ?thesis
    using False assms(1,2) st
    by (simp add: is_path_clear_def Let_def path_loop_iff rng)
qed

lemma sliding_blocked:
  assumes "square_to_indices source = Inr (sr, sc)"
      and "square_to_indices destination = Inr (dr, dc)"
      and "PIECE_MAPPING piece = Some (kind, color)"
      and "kind \<in> {''rook'', ''bishop'', ''queen''}"
      and "is_path_clear db user source destination \<noteq> Inr True"
  shows "fst (validate_move db user source destination piece) = False"
  using assms by (auto simp add: validate_move_cases shape_rules_def)

text \<open>
  Claim C6.  For well-formed squares that lie on a common rank, file or diagonal, the
  step \<open>(d_row div steps, d_col div steps)\<close> of \<open>is_path_clear\<close> is the unit step
  \<open>(sgn d_row, sgn d_col)\<close>, and \<open>is_path_clear\<close> returns \<open>True\<close> iff every square
  strictly between source and destination is empty; with at most one step there is no
  such square and the path is clear.  A rook, bishop or queen whose path holds a piece
  is rejected by \<open>validate_move\<close>, whatever stands on the destination.
\<close>

theorem is_path_clear_between:
  assumes "square_to_indices source = Inr (sr, sc)"
      and "square_to_indices destination = Inr (dr, dc)"
      and "dr = sr \<or> dc = sc \<or> \<bar>dr - sr\<bar> = \<bar>dc - sc\<bar>"
  shows "is_path_clear db user source destination =
           Inr (\<forall>k\<in>{1 ..< max \<bar>dr - sr\<bar> \<bar>dc - sc\<bar>}.
                  blank (get_piece_at db user
                    (square_name (sr + k * sgn (dr - sr)) (sc + k * sgn (dc - sc))))) \<and>
         (max \<bar>dr - sr\<bar> \<bar>dc - sc\<bar> \<le> 1 \<longrightarrow>
            is_path_clear db user source destination = Inr True) \<and>
         (PIECE_MAPPING piece = Some (kind, color) \<and>
          kind \<in> {''rook'', ''bishop'', ''queen''} \<and>
          (\<exists>k\<in>{1 ..< max \<bar>dr - sr\<bar> \<bar>dc - sc\<bar>}.
             \<not> blank (get_piece_at db user
                 (square_name (sr + k * sgn (dr - sr)) (sc + k * sgn (dc - sc))))) \<longrightarrow>
          fst (validate_move db user source destination piece) = False)"
proof (intro conjI impI)
  show eq: "is_path_clear db user source destination =
           Inr (\<forall>k\<in>{1 ..< max \<bar>dr - sr\<bar> \<bar>dc - sc\<bar>}.
                  blank (get_piece_at db user
                    (square_name (sr + k * sgn (dr - sr)) (sc + k * sgn (dc - sc)))))"
    by (rule is_path_clear_aligned [OF assms])
  show "is_path_clear db user source destination = Inr True"
    if "max \<bar>dr - sr\<bar> \<bar>dc - sc\<bar> \<le> 1"
    using that assms(1,2) by (simp add: is_path_clear_def Let_def)
  show "fst (validate_move db user source destination piece) = False"
    if h: "PIECE_MAPPING piece = Some (kind, color) \<and>
          kind \<in> {''rook'', ''bishop'', ''queen''} \<and>
          (\<exists>k\<in>{1 ..< max \<bar>dr - sr\<bar> \<bar>dc - sc\<bar>}.
             \<not> blank (get_piece_at db user
                 (square_name (sr + k * sgn (dr - sr)) (sc + k * sgn (dc - sc)))))"
  proof -
    from h eq have "is_path_clear db user source destination \<noteq> Inr True" by auto
    with h assms(1,2) show ?thesis
      using sliding_blocked [of source sr sc destination dr dc piece kind color db user]
      by blast
  qed
qed

lemma sparse_path_a1_a8:
  "is_path_clear sparse_position 0 ''a1'' ''a8'' = Inr False"
  by (simp add: sparse_position_def move_defs string_defs)

theorem is_path_clear_between_witness:
  "square_to_indices ''a1'' = Inr (7, 0) \<and> square_to_indices ''a8'' = Inr (0, 0) \<and>
   square_name (7 + 1 * sgn (0 - 7)) (0 + 1 * sgn (0 - 0)) = ''a2'' \<and>
   \<not> blank (get_piece_at sparse_position 0 ''a2'') \<and>
   is_path_clear sparse_position 0 ''a1'' ''a8'' = Inr False \<and>
   is_path_clear sparse_position 0 ''a1'' ''a2'' = Inr True \<and>
   fst (validate_move sparse_position 0 ''a1'' ''a8'' ''&#9814;'') = False"
proof -
  have sq: "square_to_indices ''a1'' = Inr (7, 0)" "square_to_indices ''a8'' = Inr (0, 0)"
    "square_to_indices ''a2'' = Inr (6, 0)"
    by (simp_all add: square_to_indices_def string_defs)
  have nm: "square_name (7 + 1 * sgn (0 - 7)) (0 + 1 * sgn (0 - 0)) = ''a2''"
    by (simp add: square_name_def string_defs)
  have occ: "\<not> blank (get_piece_at sparse_position 0 ''a2'')"
    by (simp add: sparse_position_def get_piece_at_def blank_def string_defs)
  have pm: "PIECE_MAPPING ''&#9814;'' = Some (''rook'', ''white'')"
    by (simp add: PIECE_MAPPING_def)
  have in_range: "(1::int) \<in> {1 ..< max \<bar>0 - 7\<bar> \<bar>0 - 0\<bar>}" by simp
  have blocked: "\<exists>k\<in>{1 ..< max \<bar>0 - 7\<bar> \<bar>0 - 0\<bar>}.
      \<not> blank (get_piece_at sparse_position 0
          (square_name (7 + k * sgn (0 - 7)) (0 + k * sgn (0 - 0))))"
    using occ nm in_range by (intro bexI [of _ 1]) simp_all
  have a18: "dr = sr \<or> (0::int) = 0 \<or> \<bar>dr - sr\<bar> = \<bar>(0::int) - 0\<bar>" for dr sr :: int
    by simp
  from is_path_clear_between [OF sq(1) sq(2) a18, of sparse_position 0 "''&#9814;''" "''rook''" "''white''"]
    is_path_clear_between [OF sq(1) sq(3) a18, of sparse_position 0 "''&#9814;''" "''rook''" "''white''"]
    pm blocked
  have "fst (validate_move sparse_position 0 ''a1'' ''a8'' ''&#9814;'') = False"
    and "is_path_clear sparse_position 0 ''a1'' ''a2'' = Inr True"
    by simp_all
  with sq nm occ sparse_path_a1_a8 show ?thesis by simp
qed

section \<open>The lower-case square names\<close>

lemma board_locations_list:
  "board_locations =
    [''a8'', ''b8'', ''c8'', ''d8'', ''e8'', ''f8'', ''g8'', ''h8'',
     ''a7'', ''b7'', ''c7'', ''d7'', ''e7'', ''f7'', ''g7'', ''h7'',
     ''a6'', ''b6'', ''c6'', ''d6'', ''e6'', ''f6'', ''g6'', ''h6'',
     ''a5'', ''b5'', ''c5'', ''d5'', ''e5'', ''f5'', ''g5'', ''h5'',
     ''a4'', ''b4'', ''c4'', ''d4'', ''e4'', ''f4'', ''g4'', ''h4'',
     ''a3'', ''b3'', ''c3'', ''d3'', ''e3'', ''f3'', ''g3'', ''h3'',
     ''a2'', ''b2'', ''c2'', ''d2'', ''e2'', ''f2'', ''g2'', ''h2'',
     ''a1'', ''b1'', ''c1'', ''d1'', ''e1'', ''f1'', ''g1'', ''h1'']"
  by (simp add: board_locations_def upto_from_one string_defs)

lemma board_locations_names:
  "list_all (\<lambda>s. case square_to_indices s of
                    Inr (r, c) \<Rightarrow> square_name r c = s
                  | Inl e \<Rightarrow> False) board_locations"
  unfolding board_locations_list
  by (simp add: square_to_indices_def square_name_def string_defs)

lemma board_location_name:
  assumes "s \<in> set board_locations" and "square_to_indices s = Inr (r, c)"
  shows "s = square_name r c"
  using assms board_locations_names by (auto simp add: list_all_iff)

lemma board_locations_inj:
  assumes "s \<in> set board_locations" and "d \<in> set board_locations"
      and "square_to_indices s = Inr (r, c)" and "square_to_indices d = Inr (r, c)"
  shows "s = d"
  using board_location_name [OF assms(1,3)] board_location_name [OF assms(2,4)] by simp
lemma square_name_on_board:
  "list_all (\<lambda>r. list_all (\<lambda>c. square_to_indices (square_name r c) = Inr (r, c))
              [0, 1, 2, 3, 4, 5, 6, 7]) [0, 1, 2, 3, 4, 5, 6, 7]"
  by (simp add: square_to_indices_def square_name_def string_defs)

lemma square_name_indices:
  assumes "0 \<le> r" "r < 8" "0 \<le> c" "c < 8"
  shows "square_to_indices (square_name r c) = Inr (r, c)"
proof -
  have "r \<in> set [0, 1, 2, 3, 4, 5, 6, 7]" "c \<in> set [0, 1, 2, 3, 4, 5, 6, 7]"
    using assms by auto
  with square_name_on_board show ?thesis
    unfolding list_all_iff by blast
qed

section \<open>The pawn\<close>

text \<open>
  The pawn branch of \<open>validate_move\<close>, with the emptiness of the destination read
  from the row of the location string as typed: a white pawn moves towards row 0
  (direction \<open>-1\<close>) and starts on row 6, a black pawn moves with direction \<open>+1\<close> and
  starts on row 1.  The branch answers \<open>True\<close> in exactly three cases: one step
  forward onto an empty destination; two steps forward from the starting row with the
  intermediate square and the destination both empty; one step forward and one file
  sideways onto an occupied destination.  Every other delta is illegal, so a pawn that
  is not on its starting row never moves two squares.  \<open>validate_move\<close> runs this
  branch for a pawn exactly when the destination holds no piece of the pawn's colour.
\<close>

lemma pawn_rules_spec:
  "(fst (pawn_rules db user ''white'' dest_piece src_row src_col d_row d_col) \<longleftrightarrow>
      (d_col = 0 \<and> d_row = - 1 \<and> blank dest_piece) \<or>
      (d_col = 0 \<and> d_row = - 2 \<and> src_row = 6 \<and>
         blank (get_piece_at db user (square_name (src_row - 1) src_col)) \<and>
         blank dest_piece) \<or>
      (\<bar>d_col\<bar> = 1 \<and> d_row = - 1 \<and> \<not> blank dest_piece)) \<and>
   (fst (pawn_rules db user ''black'' dest_piece src_row src_col d_row d_col) \<longleftrightarrow>
      (d_col = 0 \<and> d_row = 1 \<and> blank dest_piece) \<or>
      (d_col = 0 \<and> d_row = 2 \<and> src_row = 1 \<and>
         blank (get_piece_at db user (square_name (src_row + 1) src_col)) \<and>
         blank dest_piece) \<or>
      (\<bar>d_col\<bar> = 1 \<and> d_row = 1 \<and> \<not> blank dest_piece)) \<and>
   (square_to_indices source = Inr (sr, sc) \<and>
    square_to_indices destination = Inr (dr, dc) \<and>
    PIECE_MAPPING piece = Some (''pawn'', color) \<longrightarrow>
      (color = ''white'' \<or> color = ''black'') \<and>
      validate_move db user source destination piece =
        (if own_piece (get_piece_at db user destination) color
         then (False, ''Cannot capture your own piece.'')
         else pawn_rules db user color (get_piece_at db user destination)
                sr sc (dr - sr) (dc - sc)))"
proof (intro conjI impI)
  show "fst (pawn_rules db user ''white'' dest_piece src_row src_col d_row d_col) \<longleftrightarrow>
      (d_col = 0 \<and> d_row = - 1 \<and> blank dest_piece) \<or>
      (d_col = 0 \<and> d_row = - 2 \<and> src_row = 6 \<and>
         blank (get_piece_at db user (square_name (src_row - 1) src_col)) \<and>
         blank dest_piece) \<or>
      (\<bar>d_col\<bar> = 1 \<and> d_row = - 1 \<and> \<not> blank dest_piece)"
    by (auto simp add: pawn_rules_def Let_def)
  show "fst (pawn_rules db user ''black'' dest_piece src_row src_col d_row d_col) \<longleftrightarrow>
      (d_col = 0 \<and> d_row = 1 \<and> blank dest_piece) \<or>
      (d_col = 0 \<and> d_row = 2 \<and> src_row = 1 \<and>
         blank (get_piece_at db user (square_name (src_row + 1) src_col)) \<and>
         blank dest_piece) \<or>
      (\<bar>d_col\<bar> = 1 \<and> d_row = 1 \<and> \<not> blank dest_piece)"
    by (auto simp add: pawn_rules_def Let_def)
next
  assume h: "square_to_indices source = Inr (sr, sc) \<and>
    square_to_indices destination = Inr (dr, dc) \<and>
    PIECE_MAPPING piece = Some (''pawn'', color)"
  then show "color = ''white'' \<or> color = ''black''"
    using PIECE_MAPPING_cases [of piece "''pawn''" color] by simp
  from h show "validate_move db user source destination piece =
        (if own_piece (get_piece_at db user destination) color
         then (False, ''Cannot capture your own piece.'')
         else pawn_rules db user color (get_piece_at db user destination)
                sr sc (dr - sr) (dc - sc))"
    by (simp add: validate_move_cases shape_rules_def)
qed

lemma pawn_rules_spec_example:
  "square_to_indices ''e2'' = Inr (6, 4) \<and> square_to_indices ''e4'' = Inr (4, 4) \<and>
   PIECE_MAPPING ''&#9817;'' = Some (''pawn'', ''white'') \<and>
   square_name (6 - 1) 4 = ''e3'' \<and>
   blank (get_piece_at sparse_position 0 ''e3'') \<and>
   blank (get_piece_at sparse_position 0 ''e4'') \<and>
   validate_move sparse_position 0 ''e2'' ''e4'' ''&#9817;'' = (True, []) \<and>
   fst (pawn_rules sparse_position 0 ''white'' (get_piece_at sparse_position 0 ''h5'')
          5 7 (- 2) 0) = False"
proof -
  have sq: "square_to_indices ''e2'' = Inr (6, 4)" "square_to_indices ''e4'' = Inr (4, 4)"
    by (simp_all add: square_to_indices_def string_defs)
  have pm: "PIECE_MAPPING ''&#9817;'' = Some (''pawn'', ''white'')"
    by (simp add: PIECE_MAPPING_def)
  have nm: "square_name (6 - 1) 4 = ''e3''"
    by (simp add: square_name_def string_defs)
  have bl: "blank (get_piece_at sparse_position 0 ''e3'')"
    "blank (get_piece_at sparse_position 0 ''e4'')"
    by (simp_all add: sparse_position_def get_piece_at_def blank_def string_defs)
  have own: "\<not> own_piece (get_piece_at sparse_position 0 ''e4'') ''white''"
    using bl(2) by (simp add: own_piece_def)
  note w = pawn_rules_spec [of sparse_position 0 "get_piece_at sparse_position 0 ''e4''"
      6 4 "- 2" 0 "''e2''" 6 4 "''e4''" 4 4 "''&#9817;''" "''white''"]
  note b = pawn_rules_spec [of sparse_position 0 "get_piece_at sparse_position 0 ''h5''"
      5 7 "- 2" 0 "''e2''" 6 4 "''e4''" 4 4 "''&#9817;''" "''white''"]
  from w sq pm nm bl own
  have v: "validate_move sparse_position 0 ''e2'' ''e4'' ''&#9817;'' = (True, [])"
    by (simp add: prod_eq_iff pawn_rules_def)
  from b have "fst (pawn_rules sparse_position 0 ''white''
      (get_piece_at sparse_position 0 ''h5'') 5 7 (- 2) 0) = False"
    by simp
  with sq pm nm bl v show ?thesis by simp
qed

text \<open>
  Claim C5 fails when the destination is typed with an upper-case file letter.  The
  form accepts \<open>E3\<close>, \<open>G4\<close> and \<open>D3\<close>, which are the squares e3, g4 and d3, each
  held by a black pawn, and white pawns stand on e2 and g2.  In lower case the single
  step e2 to e3 and the double step g2 to g4 are refused and the capture e2 to d3 is
  legal.  Typed in upper case the pawn branch reads the row of the spelling as typed
  and takes the destination for empty: the single step onto the occupied e3 and the
  double step onto the occupied g4 are legal, and the capture on d3 is refused.  This
  is the defect of claim C9.
\<close>

theorem pawn_rules_alias:
  "validate_square ''E3'' = None \<and> validate_square ''G4'' = None \<and>
   validate_square ''D3'' = None \<and>
   square_to_indices ''E3'' = square_to_indices ''e3'' \<and>
   square_to_indices ''G4'' = square_to_indices ''g4'' \<and>
   square_to_indices ''D3'' = square_to_indices ''d3'' \<and>
   get_piece_at alias_position 0 ''e3'' = ''&#9823;'' \<and>
   get_piece_at alias_position 0 ''g3'' = ''&nbsp;'' \<and>
   get_piece_at alias_position 0 ''g4'' = ''&#9823;'' \<and>
   get_piece_at alias_position 0 ''d3'' = ''&#9823;'' \<and>
   validate_move alias_position 0 ''e2'' ''e3'' ''&#9817;'' =
     (False, ''Pawn cannot move forward into an occupied square.'') \<and>
   validate_move alias_position 0 ''e2'' ''E3'' ''&#9817;'' = (True, []) \<and>
   snd (chess_view_move alias_position 0 ''e2'' ''E3'' ''white'') = (''black'', Accepted) \<and>
   validate_move alias_position 0 ''g2'' ''g4'' ''&#9817;'' =
     (False, ''Path is not clear for pawn's double move.'') \<and>
   validate_move alias_position 0 ''g2'' ''G4'' ''&#9817;'' = (True, []) \<and>
   snd (chess_view_move alias_position 0 ''g2'' ''G4'' ''white'') = (''black'', Accepted) \<and>
   validate_move alias_position 0 ''e2'' ''d3'' ''&#9817;'' = (True, []) \<and>
   validate_move alias_position 0 ''e2'' ''D3'' ''&#9817;'' =
     (False, ''Pawn diagonal move must capture an enemy piece.'') \<and>
   snd (chess_view_move alias_position 0 ''e2'' ''D3'' ''white'') =
     (''white'', Error ''Pawn diagonal move must capture an enemy piece.'')"
  by code_simp

section \<open>The rook\<close>

text \<open>
  Claim C7 as stated fails: a rook move with exactly one zero delta and a clear path
  is rejected when the destination holds a piece of the rook's own colour.  Here the
  white rook on a1 is to move to a2, where a white pawn stands.
\<close>

theorem rook_own_piece_counterexample:
  "PIECE_MAPPING (get_piece_at sparse_position 0 ''a1'') = Some (''rook'', ''white'') \<and>
   square_to_indices ''a1'' = Inr (7, 0) \<and> square_to_indices ''a2'' = Inr (6, 0) \<and>
   is_path_clear sparse_position 0 ''a1'' ''a2'' = Inr True \<and>
   snd (snd (apply_move sparse_position 0 ''a1'' ''a2'' ''white'')) =
     Error ''Cannot capture your own piece.''"
  by (simp add: sparse_position_def move_defs string_defs)

text \<open>
  Claim C7, amended.  For source and destination among the 64 lower-case square names,
  a rook on the source moving on its owner's turn is accepted iff the destination
  holds no piece of the rook's colour, exactly one of \<open>d_row\<close> and \<open>d_col\<close> is zero,
  and the path is clear.
\<close>

theorem rook_move_accepted_iff:
  assumes "source \<in> set board_locations" and "destination \<in> set board_locations"
      and "square_to_indices source = Inr (sr, sc)"
      and "square_to_indices destination = Inr (dr, dc)"
      and "PIECE_MAPPING (get_piece_at db user source) = Some (''rook'', turn)"
  shows "snd (snd (apply_move db user source destination turn)) = Accepted \<longleftrightarrow>
           \<not> own_piece (get_piece_at db user destination) turn \<and>
           ((dr - sr = 0) \<noteq> (dc - sc = 0)) \<and>
           is_path_clear db user source destination = Inr True"
proof -
  from PIECE_MAPPING_not_blank [OF assms(5)]
  have nb: "\<not> blank (get_piece_at db user source)" "\<not> no_piece (get_piece_at db user source)"
    by auto
  have acc: "snd (snd (apply_move db user source destination turn)) = Accepted \<longleftrightarrow>
           \<not> own_piece (get_piece_at db user destination) turn \<and>
           (dr - sr = 0 \<or> dc - sc = 0) \<and>
           is_path_clear db user source destination = Inr True"
    using apply_move_piece [OF assms(3,4,5), of turn]
    by (simp add: shape_rules_def)
  have "\<not> (dr - sr = 0 \<and> dc - sc = 0)"
    if "\<not> own_piece (get_piece_at db user destination) turn"
  proof
    assume "dr - sr = 0 \<and> dc - sc = 0"
    then have "square_to_indices destination = Inr (sr, sc)"
      using assms(4) by simp
    from board_locations_inj [OF assms(1,2) assms(3) this]
    have "source = destination" .
    then have "own_piece (get_piece_at db user destination) turn"
      using assms(5) nb by (simp add: own_piece_def)
    with that show False by simp
  qed
  with acc show ?thesis by auto
qed

lemma sparse_rook_b1:
  "snd (snd (apply_move sparse_position 0 ''a1'' ''b1'' ''white'')) = Accepted"
  by (simp add: sparse_position_def move_defs string_defs)

theorem rook_move_accepted_iff_witness:
  "''a1'' \<in> set board_locations \<and> ''b1'' \<in> set board_locations \<and>
   square_to_indices ''a1'' = Inr (7, 0) \<and> square_to_indices ''b1'' = Inr (7, 1) \<and>
   PIECE_MAPPING (get_piece_at sparse_position 0 ''a1'') = Some (''rook'', ''white'') \<and>
   snd (snd (apply_move sparse_position 0 ''a1'' ''b1'' ''white'')) = Accepted \<and>
   \<not> own_piece (get_piece_at sparse_position 0 ''b1'') ''white'' \<and>
   is_path_clear sparse_position 0 ''a1'' ''b1'' = Inr True"
proof -
  have loc: "''a1'' \<in> set board_locations" "''b1'' \<in> set board_locations"
    by (simp_all add: board_locations_list)
  have sq: "square_to_indices ''a1'' = Inr (7, 0)" "square_to_indices ''b1'' = Inr (7, 1)"
    by (simp_all add: square_to_indices_def string_defs)
  have pm: "PIECE_MAPPING (get_piece_at sparse_position 0 ''a1'') = Some (''rook'', ''white'')"
    by (simp add: sparse_position_def get_piece_at_def PIECE_MAPPING_def)
  from rook_move_accepted_iff [OF loc sq pm] sparse_rook_b1
  have "\<not> own_piece (get_piece_at sparse_position 0 ''b1'') ''white'' \<and>
        is_path_clear sparse_position 0 ''a1'' ''b1'' = Inr True"
    by simp
  with loc sq pm sparse_rook_b1 show ?thesis by simp
qed

lemma sparse_rook_same_square:
  "square_to_indices ''A1'' = square_to_indices ''a1'' \<and>
   snd (snd (apply_move sparse_position 0 ''a1'' ''A1'' ''white'')) = Accepted"
  by (simp add: sparse_position_def move_defs string_defs)

section \<open>The starting layout\<close>

text \<open>
  \<open>newGame\<close> of views.py produces the standard layout: the grid that \<open>chess_view\<close>
  renders has the black back rank on rank 8, black pawns on rank 7, four empty ranks,
  white pawns on rank 2 and the white back rank on rank 1, which makes 16 white and 16
  black pieces.
\<close>

lemma start_position_grid:
  "board_grid start_position 0 =
    [[''&#9820;'', ''&#9822;'', ''&#9821;'', ''&#9819;'', ''&#9818;'', ''&#9821;'', ''&#9822;'', ''&#9820;''],
     replicate 8 ''&#9823;'',
     replicate 8 ''&nbsp;'',
     replicate 8 ''&nbsp;'',
     replicate 8 ''&nbsp;'',
     replicate 8 ''&nbsp;'',
     replicate 8 ''&#9817;'',
     [''&#9814;'', ''&#9816;'', ''&#9815;'', ''&#9813;'', ''&#9812;'', ''&#9815;'', ''&#9816;'', ''&#9814;'']]"
  by code_simp

lemma start_position_counts:
  "length (filter (\<lambda>v. map_option snd (PIECE_MAPPING v) = Some ''white'')
             (concat (board_grid start_position 0))) = 16 \<and>
   length (filter (\<lambda>v. map_option snd (PIECE_MAPPING v) = Some ''black'')
             (concat (board_grid start_position 0))) = 16"
  unfolding start_position_grid by (simp add: PIECE_MAPPING_def eval_nat_numeral)

lemma reset_game_a1:
  "get_piece_at (reset_game db user) user ''a1'' = ''&#9820;''"
  by (simp add: reset_game_def place_rows_def delete_user_def files_def get_piece_at_def
      eval_nat_numeral)

text \<open>
  Claim C2 fails for \<open>reset_game\<close> of models.py.  Its docstring promises the black
  back rank on rank 8 and the white back rank on rank 1, but its dictionary
  \<open>initial_board\<close> lists the black back rank under the key \<open>"1"\<close> and the white back
  rank under \<open>"8"\<close>: after \<open>reset_game\<close> the rendered grid starts with the white back
  rank (rank 8) and ends with the black back rank (rank 1), the pawns likewise.
\<close>

theorem reset_game_colours_swapped:
  "board_grid reset_position 0 =
    [[''&#9814;'', ''&#9816;'', ''&#9815;'', ''&#9813;'', ''&#9812;'', ''&#9815;'', ''&#9816;'', ''&#9814;''],
     replicate 8 ''&#9817;'',
     replicate 8 ''&nbsp;'',
     replicate 8 ''&nbsp;'',
     replicate 8 ''&nbsp;'',
     replicate 8 ''&nbsp;'',
     replicate 8 ''&#9823;'',
     [''&#9820;'', ''&#9822;'', ''&#9821;'', ''&#9819;'', ''&#9818;'', ''&#9821;'', ''&#9822;'', ''&#9820;'']] \<and>
   PIECE_MAPPING ''&#9814;'' = Some (''rook'', ''white'') \<and>
   PIECE_MAPPING ''&#9817;'' = Some (''pawn'', ''white'') \<and>
   PIECE_MAPPING ''&#9823;'' = Some (''pawn'', ''black'') \<and>
   PIECE_MAPPING ''&#9820;'' = Some (''rook'', ''black'') \<and>
   get_piece_at reset_position 0 ''a1'' = ''&#9820;'' \<and>
   get_piece_at start_position 0 ''a1'' = ''&#9814;''"
  by code_simp

section \<open>Upper-case square names\<close>

text \<open>
  Claim C9 fails.  The form's validator and \<open>square_to_indices\<close> lower the file
  letter, so \<open>E2\<close> is a well-formed square with the indices of \<open>e2\<close>; but
  \<open>get_piece_at\<close> and \<open>move_piece\<close> look the location up as it was typed, and the
  rows are stored under lower-case names.  From the starting position with white to
  move, \<open>e2\<close> to \<open>e4\<close> is accepted, while \<open>E2\<close> to \<open>e4\<close> is rejected with
  ``No piece at the source square.''; and \<open>e2\<close> to \<open>E4\<close> is accepted but leaves the
  square e4 empty, the pawn being stored under the location \<open>E4\<close>.
\<close>

theorem uppercase_square_not_equivalent:
  "validate_square ''E2'' = None \<and> validate_square ''E4'' = None \<and>
   square_to_indices ''E2'' = square_to_indices ''e2'' \<and>
   square_to_indices ''E4'' = square_to_indices ''e4'' \<and>
   snd (chess_view_move start_position 0 ''e2'' ''e4'' ''white'') = (''black'', Accepted) \<and>
   snd (chess_view_move start_position 0 ''E2'' ''e4'' ''white'') =
     (''white'', Error ''No piece at the source square.'') \<and>
   get_piece_at (fst (chess_view_move start_position 0 ''e2'' ''e4'' ''white'')) 0 ''e4''
     = ''&#9817;'' \<and>
   snd (chess_view_move start_position 0 ''e2'' ''E4'' ''white'') = (''black'', Accepted) \<and>
   get_piece_at (fst (chess_view_move start_position 0 ''e2'' ''E4'' ''white'')) 0 ''e4''
     = ''&nbsp;'' \<and>
   get_piece_at (fst (chess_view_move start_position 0 ''e2'' ''E4'' ''white'')) 0 ''E4''
     = ''&#9817;''"
  by code_simp

end
